theory Spec2Isabelle
  imports Main "HOL-Library.Word"
begin

unbundle bit_operations_syntax

section \<open>The type-analysis walker of \<open>typeAnalyzer.ts\<close>\<close>

text \<open>
  The development embeds the validations of the class \<open>TypeAnalyzer\<close>
  (\<open>server/src/analyzer/typeAnalyzer.ts\<close>). The walker cooperates with an expression
  evaluator, a type lattice and parse-tree utilities that live in other modules; they are
  taken as the fields of the record \<open>Env\<close>, so every theorem holds for any implementation
  of them. What a function of the walker hands to the evaluator's \<open>addError\<close> and
  \<open>addDiagnostic\<close> and to the sink's \<open>addUnusedCodeWithTextRange\<close> is returned as a list
  of \<open>Emission\<close>s, in call order; what the evaluator reports on its own while it answers
  a query is not part of that list. A private method keeps its name without the leading
  underscore.
\<close>

subsection \<open>Parse nodes\<close>

text \<open>Modelled from the spec: the node types of \<open>parseNodes.ts\<close>, which is not among the
  sources; each node type has the fields that the embedded functions read. Of the enum
  \<open>ParseNodeType\<close> the members that the functions test for are listed; every other member is
  \<open>Other\<close> with its number.\<close>

datatype ParseNodeType =
    Argument | Assert | Assignment | Call | Class | Decorator | Ellipsis | Function
  | ImportAs | ImportFrom | ImportFromAs | MemberAccess | Module | Name | Parameter | Pass
  | Return | StatementList | StringList | Suite | TypeAnnotation | Yield | YieldFrom
  | Other nat

type_synonym FlowFlags = "32 word"

record FlowNode =
  flags :: FlowFlags

text \<open>A parse node as the walker sees it when it climbs towards the root: its identity, its
  kind, the flow node attached to it by the binding pass (\<open>AnalyzerNodeInfo.getFlowNode\<close>),
  and its \<open>parent\<close>.\<close>

datatype ParseNode =
  ParseNode (nodeId: nat) (nodeType: ParseNodeType) (flowNode: "FlowNode option")
    (parent: "ParseNode option")

record TextRange =
  start :: int
  rangeLength :: int

record NameNode =
  nameBase :: ParseNode
  nameRange :: TextRange
  nameToken_value :: string

datatype ParameterCategory = Simple | VarArgList | VarArgDictionary

record ParameterNode =
  parameterBase :: ParseNode
  category :: ParameterCategory
  parameterName :: "NameNode option"

record FunctionNode =
  functionBase :: ParseNode
  functionName :: NameNode
  parameters :: "ParameterNode list"
  decorators :: "ParseNode list"

record ReturnNode =
  returnBase :: ParseNode
  returnExpression :: "ParseNode option"



subsection \<open>Types\<close>

text \<open>Modelled from the spec: the types of \<open>types.ts\<close>, which is not among the sources.
  The sum has one constructor per \<open>TypeCategory\<close>. A class carries its name, the flags the
  walker asks for, and its type arguments when specialized; a function its flags and its
  declared return type.\<close>

datatype ClassType =
  ClassType (className: string) (builtInFlag: bool) (typedDictFlag: bool)
    (classTypeArguments: "Type list option")
and FunctionType =
  FunctionType (staticMethodFlag: bool) (classMethodFlag: bool)
    (declaredReturnType: "Type option")
and Type =
    UnboundType | UnknownType | AnyType | NoneType | NeverType
  | FunctionT FunctionType | OverloadedFunctionType | PropertyType
  | ClassT ClassType | ObjectType (classType: ClassType) | ModuleType
  | UnionType (subtypes: "Type list") | TypeVarType

datatype TypeCategory =
    Unbound | Unknown | Any | NoneCategory | Never | Function | OverloadedFunction
  | Property | Class | Object | Module | UnionCategory | TypeVar


text \<open>Modelled from the spec: \<open>ClassType.cloneForSpecialization(classType, typeArguments)\<close>
  of \<open>types.ts\<close>, the same class with the given type arguments, so that \<open>Iterator\<close> cloned
  with \<open>[T]\<close> is \<open>Iterator[T]\<close>.\<close>

definition cloneForSpecialization :: "ClassType \<Rightarrow> Type list \<Rightarrow> ClassType" where
  "cloneForSpecialization c typeArgs =
     ClassType (className c) (builtInFlag c) (typedDictFlag c) (Some typeArgs)"

subsection \<open>Declarations, symbols and scopes\<close>

text \<open>Modelled from the spec: the declarations, symbols and scopes of \<open>declaration.ts\<close>,
  \<open>symbol.ts\<close> and \<open>scope.ts\<close>, which are not among the sources, and the nodes that
  declarations point to.\<close>

record ModuleNameNode =
  nameParts :: "NameNode list"

record ImportAsNode =
  importAsBase :: ParseNode
  importAsModule :: ModuleNameNode
  importAsAlias :: "NameNode option"

record ImportFromNode =
  importFromBase :: ParseNode
  importFromModule :: ModuleNameNode

text \<open>An \<open>ImportFromAsNode\<close> is read together with its parent, the \<open>ImportFromNode\<close>
  (\<open>decl.node.parent as ImportFromNode\<close>).\<close>

record ImportFromAsNode =
  importFromAsBase :: ParseNode
  importFromAsName :: NameNode
  importFromAsAlias :: "NameNode option"
  importFromAsParent :: ImportFromNode

text \<open>A statement of a suite; \<open>substatements\<close> are the \<open>statements\<close> of a
  \<open>StatementListNode\<close> (the simple statements of one line).\<close>

record StatementNode =
  statementBase :: ParseNode
  substatements :: "ParseNode list"

record SuiteNode =
  suiteBase :: ParseNode
  suiteStatements :: "StatementNode list"

record ClassNode =
  classBase :: ParseNode
  classNodeName :: NameNode
  classSuite :: SuiteNode

text \<open>The node of an alias declaration is an \<open>ImportAsNode\<close>, an \<open>ImportFromAsNode\<close> or (for
  a wildcard import) an \<open>ImportFromNode\<close>; the node of a variable or parameter declaration is
  a name node or a node of another kind.\<close>

datatype AliasDeclarationNode =
    ImportAsNodeOf ImportAsNode
  | ImportFromAsNodeOf ImportFromAsNode
  | ImportFromNodeOf ImportFromNode

datatype NameOrOtherNode = NameNodeOf NameNode | OtherNodeOf ParseNode

datatype Declaration =
    AliasDeclaration AliasDeclarationNode
  | VariableDeclaration NameOrOtherNode
  | ParameterDeclaration NameOrOtherNode
  | ClassDeclaration ClassNode
  | FunctionDeclaration FunctionNode
  | MethodDeclaration FunctionNode
  | BuiltInDeclaration

record Symbol =
  symbolId :: nat
  ignoredForProtocolMatch :: bool
  declarations :: "Declaration list"

datatype ScopeType = ListComprehension | Function | Class | Module | Builtins

text \<open>A symbol table is iterated in insertion order, so it is a list of entries.\<close>

record Scope =
  scopeType :: ScopeType
  symbolTable :: "(string \<times> Symbol) list"

subsection \<open>File information, diagnostics and the collaborators\<close>

text \<open>Modelled from the spec: the file information of \<open>analyzerFileInfo.ts\<close> and the
  diagnostic levels and rules of \<open>configOptions.ts\<close> and \<open>diagnosticRules.ts\<close>, which are
  not among the sources, as far as the embedded functions read them.\<close>

datatype DiagnosticLevel = LevelNone | LevelWarning | LevelError

datatype DiagnosticRule =
    reportUnusedImport | reportUnusedClass | reportUnusedFunction | reportUnusedVariable
  | reportUnnecessaryIsInstance

record DiagnosticSettings =
  settingUnusedImport :: DiagnosticLevel
  settingUnusedClass :: DiagnosticLevel
  settingUnusedFunction :: DiagnosticLevel
  settingUnusedVariable :: DiagnosticLevel
  settingUnnecessaryIsInstance :: DiagnosticLevel

record AnalyzerFileInfo =
  isStubFile :: bool
  filePath :: string
  diagnosticSettings :: DiagnosticSettings

text \<open>Where a diagnostic is put: on a node (the node object is passed as the range), or on a
  range computed by the walker.\<close>

datatype Target = AtNode nat | AtRange TextRange

datatype Emission =
    AddError string Target
  | AddDiagnostic DiagnosticLevel DiagnosticRule string Target
  | AddUnusedCode string Target

datatype UsageMethod = UsageGet | UsageDel

record EvaluatorUsage =
  usageMethod :: UsageMethod
  expectedType :: "Type option"

datatype EvaluatorFlags = FlagsNone | AllowForwardReferences

text \<open>The collaborators: the functions of the evaluator, of \<open>typeUtils.ts\<close>, \<open>types.ts\<close>,
  \<open>parseTreeUtils.ts\<close>, \<open>declarationUtils.ts\<close>, \<open>scopeUtils.ts\<close>, \<open>symbolNameUtils.ts\<close>
  and \<open>textRange.ts\<close> that the embedded functions call, and the constant
  \<open>FlowFlags.Unreachable\<close> of \<open>codeFlow.ts\<close>. \<open>canAssignType\<close> returns its verdict together
  with the text of the \<open>DiagnosticAddendum\<close> it filled (\<open>diagAddendum.getString()\<close>);
  \<open>getBuiltInType\<close> is given the current scope of the walker.\<close>

record Env =
  fileInfo :: AnalyzerFileInfo
  getType :: "ParseNode \<Rightarrow> EvaluatorUsage \<Rightarrow> EvaluatorFlags \<Rightarrow> Type"
  isNodeReachable :: "ParseNode \<Rightarrow> bool"
  getEnclosingFunction :: "ParseNode \<Rightarrow> FunctionNode option"
  getFunctionDeclaredReturnType :: "FunctionNode \<Rightarrow> Type option"
  isNoReturnType :: "Type \<Rightarrow> bool"
  specializeType :: "Type \<Rightarrow> Type"
  canAssignType :: "Type \<Rightarrow> Type \<Rightarrow> bool \<times> string"
  printType :: "Type \<Rightarrow> string"
  getBuiltInType :: "Scope \<Rightarrow> string \<Rightarrow> Type"
  getExpressionType :: "ParseNode \<Rightarrow> Type option"
  getDeclaredGeneratorYieldType :: "FunctionType \<Rightarrow> Type \<Rightarrow> Type option"
  FlowFlags_Unreachable :: FlowFlags
  getTypeOfClass :: "ClassNode \<Rightarrow> ClassType"
  isDerivedFrom :: "ClassType \<Rightarrow> ClassType \<Rightarrow> bool"
  combineTypes :: "Type list \<Rightarrow> Type"
  isTypeSame :: "Type \<Rightarrow> Type \<Rightarrow> bool"
  isAnyOrUnknown :: "Type \<Rightarrow> bool"
  doForSubtypes :: "Type \<Rightarrow> (Type \<Rightarrow> Type option) \<Rightarrow> Type"
  transformTypeObjectToClass :: "Type \<Rightarrow> Type"
  isPrivateName :: "string \<Rightarrow> bool"
  isProtectedName :: "string \<Rightarrow> bool"
  isDunderName :: "string \<Rightarrow> bool"
  TextRange_extend :: "TextRange \<Rightarrow> TextRange \<Rightarrow> TextRange"

text \<open>\<open>_getTypeOfExpression(node, flags = EvaluatorFlags.None, expectedType?)\<close>.\<close>

definition getTypeOfExpression ::
  "Env \<Rightarrow> ParseNode \<Rightarrow> EvaluatorFlags \<Rightarrow> Type option \<Rightarrow> Type" where
  "getTypeOfExpression env node flgs expected =
     getType env node \<lparr>usageMethod = UsageGet, expectedType = expected\<rparr> flgs"

subsection \<open>\<open>visitReturn\<close>\<close>

text \<open>The apostrophe that the messages put around printed types.\<close>

definition tick :: string where
  "tick = [CHR 0x27]"

definition noReturnReturnMessage :: string where
  "noReturnReturnMessage =
     ''Function with declared return type 'NoReturn' cannot include a return statement''"

definition returnMismatchMessage :: "Env \<Rightarrow> Type \<Rightarrow> Type \<Rightarrow> string \<Rightarrow> string" where
  "returnMismatchMessage env returnType specializedDeclaredType addendum =
     ''Expression of type '' @ tick @ printType env returnType @ tick @
     '' cannot be assigned to return type '' @ tick @
     printType env specializedDeclaredType @ tick @ addendum"

definition visitReturn :: "Env \<Rightarrow> ReturnNode \<Rightarrow> Emission list \<times> bool" where
  "visitReturn env node =
     (let enclosingFunctionNode = getEnclosingFunction env (returnBase node);
          declaredReturnType =
            (case enclosingFunctionNode of
               Some f \<Rightarrow> getFunctionDeclaredReturnType env f
             | None \<Rightarrow> None);
          returnType =
            (case returnExpression node of
               Some e \<Rightarrow> getTypeOfExpression env e FlagsNone declaredReturnType
             | None \<Rightarrow> NoneType)
      in (if isNodeReachable env (returnBase node) \<and> enclosingFunctionNode \<noteq> None then
            (case declaredReturnType of
               Some declared \<Rightarrow>
                 if isNoReturnType env declared then
                   [AddError noReturnReturnMessage (AtNode (nodeId (returnBase node)))]
                 else
                   (let specializedDeclaredType = specializeType env declared;
                        (ok, addendum) = canAssignType env specializedDeclaredType returnType
                    in if \<not> ok then
                         [AddError
                            (returnMismatchMessage env returnType specializedDeclaredType
                               addendum)
                            (AtNode (nodeId (case returnExpression node of
                                               Some e \<Rightarrow> e
                                             | None \<Rightarrow> returnBase node)))]
                       else [])
             | None \<Rightarrow> [])
          else [],
          True))"

subsection \<open>\<open>visitYield\<close>, \<open>visitYieldFrom\<close> and \<open>_validateYieldType\<close>\<close>









subsection \<open>\<open>_isCodeUnreachable\<close> and \<open>walk\<close>\<close>

text \<open>The loop climbs from the node through \<open>parent\<close> to the first node that has a flow node
  and tests that flow node's flags against \<open>FlowFlags.Unreachable\<close>; with no flow node on the
  way the code counts as reachable.\<close>

fun isCodeUnreachable :: "Env \<Rightarrow> ParseNode \<Rightarrow> bool" where
  "isCodeUnreachable env (ParseNode i t fl p) =
     (case fl of
        Some f \<Rightarrow> flags f AND FlowFlags_Unreachable env \<noteq> 0
      | None \<Rightarrow> (case p of Some q \<Rightarrow> isCodeUnreachable env q | None \<Rightarrow> False))"

text \<open>The nearest enclosing flow node of a node, in the words of the specification: the flow
  node of the node itself or else of the closest ancestor that has one.\<close>

fun nearestFlowNode :: "ParseNode \<Rightarrow> FlowNode option" where
  "nearestFlowNode (ParseNode i t fl p) =
     (case fl of
        Some f \<Rightarrow> Some f
      | None \<Rightarrow> (case p of Some q \<Rightarrow> nearestFlowNode q | None \<Rightarrow> None))"

text \<open>The tree below a node: each subtree has the identity, kind and flow node of its root and
  the children the base walker descends into. \<open>nodeOf\<close> is the root of a subtree as a
  \<open>ParseNode\<close>, given its parent.\<close>

datatype ParseTree =
  ParseTree (treeId: nat) (treeType: ParseNodeType) (treeFlowNode: "FlowNode option")
    (children: "ParseTree list")

definition nodeOf :: "ParseNode option \<Rightarrow> ParseTree \<Rightarrow> ParseNode" where
  "nodeOf par t = ParseNode (treeId t) (treeType t) (treeFlowNode t) par"

text \<open>Modelled from the spec: the base class \<open>ParseTreeWalker\<close> (\<open>parseTreeWalker.ts\<close> is
  not among the sources), whose \<open>walk\<close>, here \<open>superWalk\<close>, calls the handler of the node's
  kind and, when the handler answers \<open>true\<close>, hands the children to \<open>walkMultiple\<close>, which
  walks them from left to right, each through the overriding \<open>walk\<close>. The handlers are the
  parameter \<open>visitNode\<close>; the result lists each visited node with what its handler emitted.
  The \<open>walk\<close> of the analyzer overrides the base walker's: an unreachable node is not handed
  to it.\<close>

fun walk ::
  "Env \<Rightarrow> (ParseNode \<Rightarrow> Emission list \<times> bool) \<Rightarrow> ParseNode option \<Rightarrow> ParseTree
     \<Rightarrow> (ParseNode \<times> Emission list) list"
and superWalk ::
  "Env \<Rightarrow> (ParseNode \<Rightarrow> Emission list \<times> bool) \<Rightarrow> ParseNode option \<Rightarrow> ParseTree
     \<Rightarrow> (ParseNode \<times> Emission list) list"
and walkMultiple ::
  "Env \<Rightarrow> (ParseNode \<Rightarrow> Emission list \<times> bool) \<Rightarrow> ParseNode option \<Rightarrow> ParseTree list
     \<Rightarrow> (ParseNode \<times> Emission list) list"
where
  "walk env visitNode par node =
     (if \<not> isCodeUnreachable env (nodeOf par node) then superWalk env visitNode par node
      else [])"
| "superWalk env visitNode par (ParseTree i t fl cs) =
     (let (emitted, descend) = visitNode (ParseNode i t fl par)
      in (ParseNode i t fl par, emitted) #
         (if descend then walkMultiple env visitNode (Some (ParseNode i t fl par)) cs
          else []))"
| "walkMultiple env visitNode par [] = []"
| "walkMultiple env visitNode par (node # nodes) =
     walk env visitNode par node @ walkMultiple env visitNode par nodes"

subsection \<open>\<open>_validateTypedDictClassSuite\<close>\<close>

definition typedDictMessage :: string where
  "typedDictMessage = ''TypedDict classes can contain only type annotations''"

definition emitBadStatementError :: "ParseNode \<Rightarrow> Emission" where
  "emitBadStatementError node = AddError typedDictMessage (AtNode (nodeId node))"

text \<open>The kinds of substatement that a TypedDict class body may contain.\<close>

definition allowedInTypedDict :: "ParseNodeType \<Rightarrow> bool" where
  "allowedInTypedDict t =
     (\<not> (t \<noteq> ParseNodeType.TypeAnnotation \<and> t \<noteq> ParseNodeType.Ellipsis \<and>
         t \<noteq> ParseNodeType.StringList \<and> t \<noteq> ParseNodeType.Pass))"

text \<open>The body of the \<open>forEach\<close> over the statements of the suite.\<close>

definition validateTypedDictStatement :: "Env \<Rightarrow> StatementNode \<Rightarrow> Emission list" where
  "validateTypedDictStatement env statement =
     (if \<not> isCodeUnreachable env (statementBase statement) then
        (if nodeType (statementBase statement) = ParseNodeType.StatementList then
           map emitBadStatementError
             (filter (\<lambda>substatement. \<not> allowedInTypedDict (nodeType substatement))
                (substatements statement))
         else [emitBadStatementError (statementBase statement)])
      else [])"

definition validateTypedDictClassSuite :: "Env \<Rightarrow> SuiteNode \<Rightarrow> Emission list" where
  "validateTypedDictClassSuite env suiteNode =
     concat (map (validateTypedDictStatement env) (suiteStatements suiteNode))"

text \<open>Modelled from the spec: \<open>ClassType.isTypedDictClass\<close> of \<open>types.ts\<close>, which reads the
  class's TypedDict flag.\<close>

definition isTypedDictClass :: "ClassType \<Rightarrow> bool" where
  "isTypedDictClass c = typedDictFlag c"

text \<open>The last step of \<open>visitClass\<close>: the suite is validated when the class type that the
  evaluator returns for the node is a TypedDict class.\<close>

definition visitClassTypedDict :: "Env \<Rightarrow> ClassNode \<Rightarrow> Emission list" where
  "visitClassTypedDict env node =
     (if isTypedDictClass (getTypeOfClass env node) then
        validateTypedDictClassSuite env (classSuite node)
      else [])"

subsection \<open>\<open>_validateMethod\<close>\<close>

definition startsWith :: "string \<Rightarrow> string \<Rightarrow> bool" where
  "startsWith s pre = (take (length pre) s = pre)"

definition endsWith :: "string \<Rightarrow> string \<Rightarrow> bool" where
  "endsWith s suf = (length suf \<le> length s \<and> drop (length s - length suf) s = suf)"

definition newMessage :: string where
  "newMessage = ''The __new__ override should take a 'cls' parameter''"

definition initSubclassMessage :: string where
  "initSubclassMessage = ''The __init_subclass__ override should take a 'cls' parameter''"

definition staticMethodMessage :: string where
  "staticMethodMessage = ''Static methods should not take a 'self' or 'cls' parameter''"

definition classMethodMessage :: string where
  "classMethodMessage = ''Class methods should take a 'cls' parameter''"

definition instanceMethodMessage :: string where
  "instanceMethodMessage = ''Instance methods should take a 'self' parameter''"

text \<open>\<open>node.parameters.length > 0 ? node.parameters[0] : node.name\<close>, the node that the errors
  about the first parameter are put on.\<close>

definition firstParameterOrName :: "FunctionNode \<Rightarrow> Target" where
  "firstParameterOrName node =
     (case parameters node of
        p # _ \<Rightarrow> AtNode (nodeId (parameterBase p))
      | [] \<Rightarrow> AtNode (nodeId (nameBase (functionName node))))"

text \<open>The name of the first parameter, when there is a first parameter and it has a name.\<close>

definition firstParameterName :: "FunctionNode \<Rightarrow> NameNode option" where
  "firstParameterName node =
     (case parameters node of p # _ \<Rightarrow> parameterName p | [] \<Rightarrow> None)"

definition validateMethod :: "Env \<Rightarrow> FunctionNode \<Rightarrow> FunctionType \<Rightarrow> Emission list" where
  "validateMethod env node functionType =
     (if nameToken_value (functionName node) = ''__new__'' then
        (case firstParameterName node of
           None \<Rightarrow> [AddError newMessage (firstParameterOrName node)]
         | Some n \<Rightarrow>
             if nameToken_value n \<noteq> ''cls'' \<and> nameToken_value n \<noteq> ''mcs'' then
               [AddError newMessage (firstParameterOrName node)]
             else [])
      else if nameToken_value (functionName node) = ''__init_subclass__'' then
        (case firstParameterName node of
           None \<Rightarrow> [AddError initSubclassMessage (firstParameterOrName node)]
         | Some n \<Rightarrow>
             if nameToken_value n \<noteq> ''cls'' then
               [AddError initSubclassMessage (firstParameterOrName node)]
             else [])
      else if staticMethodFlag functionType then
        (case firstParameterName node of
           Some n \<Rightarrow>
             if nameToken_value n = ''self'' \<or> nameToken_value n = ''cls'' then
               [AddError staticMethodMessage (AtNode (nodeId (nameBase n)))]
             else []
         | None \<Rightarrow> [])
      else if classMethodFlag functionType then
        (let paramName =
               (case firstParameterName node of Some n \<Rightarrow> nameToken_value n | None \<Rightarrow> [])
         in if paramName \<noteq> ''cls'' then
              (if \<not> isStubFile (fileInfo env) \<or>
                  (\<not> startsWith paramName ''_'' \<and> paramName \<noteq> ''metacls'') then
                 [AddError classMethodMessage (firstParameterOrName node)]
               else [])
            else [])
      else
        (if length (decorators node) = 0 then
           (let paramName =
                  (case firstParameterName node of Some n \<Rightarrow> nameToken_value n | None \<Rightarrow> []);
                firstParamIsSimple =
                  (case parameters node of
                     p # _ \<Rightarrow> \<not> (category p \<noteq> ParameterCategory.Simple)
                   | [] \<Rightarrow> True)
            in if firstParamIsSimple \<and> paramName \<noteq> ''self'' \<and> \<not> startsWith paramName ''_''
               then
                 (let isRegisterMethod =
                        (isStubFile (fileInfo env) \<and> paramName = ''cls'' \<and>
                         nameToken_value (functionName node) = ''register'')
                  in if \<not> isRegisterMethod then
                       [AddError instanceMethodMessage (firstParameterOrName node)]
                     else [])
               else [])
         else []))"

subsection \<open>\<open>_validateIsInstanceCallNecessary\<close>\<close>







text \<open>The local function \<open>filterType\<close>, for one class of the first argument's type.\<close>

fun filterClasses :: "Env \<Rightarrow> ClassType \<Rightarrow> ClassType list \<Rightarrow> ClassType list" where
  "filterClasses env varType [] = []"
| "filterClasses env varType (filterType # rest) =
     (let filterIsSuperclass = isDerivedFrom env varType filterType;
          filterIsSubclass = isDerivedFrom env filterType varType
      in (if filterIsSuperclass then [varType]
          else if filterIsSubclass then [filterType]
          else []) @ filterClasses env varType rest)"

definition filterType :: "Env \<Rightarrow> bool \<Rightarrow> ClassType list \<Rightarrow> ClassType \<Rightarrow> Type list" where
  "filterType env isInstanceCheck classTypeList varType =
     (let filteredTypes = filterClasses env varType classTypeList
      in if \<not> isInstanceCheck then map ClassT filteredTypes
         else map ObjectType filteredTypes)"







subsection \<open>The unused-symbol sweep\<close>

definition isSymbolPrivate :: "Env \<Rightarrow> string \<Rightarrow> ScopeType \<Rightarrow> bool" where
  "isSymbolPrivate env nameValue scopeTy =
     (if scopeTy = ScopeType.Function \<or> scopeTy = ScopeType.ListComprehension then True
      else if isPrivateName env nameValue then True
      else if isProtectedName env nameValue then
        (let isClassScope = (scopeTy = ScopeType.Class) in \<not> isClassScope)
      else False)"

definition notAccessedMessage :: "string \<Rightarrow> string" where
  "notAccessedMessage name = tick @ name @ tick @ '' is not accessed''"

definition kindNotAccessedMessage :: "string \<Rightarrow> string \<Rightarrow> string" where
  "kindNotAccessedMessage kind name =
     kind @ '' '' @ tick @ name @ tick @ '' is not accessed''"

text \<open>\<open>nameParts.map(np => np.nameToken.value).join('.')\<close>.\<close>

fun joinWithDot :: "string list \<Rightarrow> string" where
  "joinWithDot [] = []"
| "joinWithDot [x] = x"
| "joinWithDot (x # y # rest) = x @ ''.'' @ joinWithDot (y # rest)"

text \<open>The tail of \<open>_conditionallyReportUnusedDeclaration\<close>, after the \<open>switch\<close>: with a name
  node, a rule and a message, the name is marked as unused code and the diagnostic is
  added at the level of its setting.\<close>

definition reportUnused ::
  "DiagnosticLevel \<Rightarrow> DiagnosticRule option \<Rightarrow> NameNode option \<Rightarrow> string option \<Rightarrow> Emission list"
  where
  "reportUnused diagnosticLevel rule nameNode message =
     (case (nameNode, rule, message) of
        (Some n, Some r, Some m) \<Rightarrow>
          if m \<noteq> [] then
            [AddUnusedCode (notAccessedMessage (nameToken_value n)) (AtNode (nodeId (nameBase n))),
             AddDiagnostic diagnosticLevel r m (AtNode (nodeId (nameBase n)))]
          else []
      | _ \<Rightarrow> [])"

text \<open>The name node chosen for an alias declaration whose node is an \<open>ImportFromAsNode\<close>.\<close>

definition importFromAsNameNode :: "Env \<Rightarrow> ImportFromAsNode \<Rightarrow> NameNode option" where
  "importFromAsNameNode env node =
     (let importFrom = importFromAsParent node;
          aliasOrName =
            (case importFromAsAlias node of Some a \<Rightarrow> a | None \<Rightarrow> importFromAsName node)
      in case nameParts (importFromModule importFrom) of
           [] \<Rightarrow> Some aliasOrName
         | firstPart # _ \<Rightarrow>
             if nameToken_value firstPart \<noteq> ''__future__'' \<and>
                \<not> endsWith (filePath (fileInfo env)) ''_pb2.py''
             then Some aliasOrName
             else None)"

definition conditionallyReportUnusedDeclaration ::
  "Env \<Rightarrow> Declaration \<Rightarrow> bool \<Rightarrow> Emission list" where
  "conditionallyReportUnusedDeclaration env decl isPrivate =
     (let settings = diagnosticSettings (fileInfo env)
      in case decl of
           AliasDeclaration aliasNode \<Rightarrow>
             (let diagnosticLevel = settingUnusedImport settings;
                  rule = Some reportUnusedImport;
                  importName =
                    (\<lambda>nameNode. case nameNode of
                       Some n \<Rightarrow>
                         Some (kindNotAccessedMessage ''Import'' (nameToken_value n))
                     | None \<Rightarrow> None)
              in case aliasNode of
                   ImportAsNodeOf node \<Rightarrow>
                     (case importAsAlias node of
                        Some a \<Rightarrow> reportUnused diagnosticLevel rule (Some a) (importName (Some a))
                      | None \<Rightarrow>
                          (case nameParts (importAsModule node) of
                             firstPart # others \<Rightarrow>
                               (let multipartName =
                                      joinWithDot (map nameToken_value (firstPart # others));
                                    textRange =
                                      TextRange_extend env
                                        \<lparr>start = start (nameRange firstPart),
                                         rangeLength = rangeLength (nameRange firstPart)\<rparr>
                                        (nameRange (last (firstPart # others)))
                                in [AddUnusedCode (notAccessedMessage multipartName)
                                      (AtRange textRange),
                                    AddDiagnostic (settingUnusedImport settings)
                                      reportUnusedImport
                                      (kindNotAccessedMessage ''Import'' multipartName)
                                      (AtRange textRange)])
                           | [] \<Rightarrow> reportUnused diagnosticLevel rule None (importName None)))
                 | ImportFromAsNodeOf node \<Rightarrow>
                     (let nameNode = importFromAsNameNode env node
                      in reportUnused diagnosticLevel rule nameNode (importName nameNode))
                 | ImportFromNodeOf node \<Rightarrow>
                     reportUnused diagnosticLevel rule None (importName None))
         | VariableDeclaration declNode \<Rightarrow>
             if \<not> isPrivate then []
             else
               (case declNode of
                  NameNodeOf n \<Rightarrow>
                    reportUnused (settingUnusedVariable settings) (Some reportUnusedVariable)
                      (Some n) (Some (kindNotAccessedMessage ''Variable'' (nameToken_value n)))
                | OtherNodeOf other \<Rightarrow>
                    reportUnused (settingUnusedVariable settings) None None None)
         | ParameterDeclaration declNode \<Rightarrow>
             if \<not> isPrivate then []
             else
               (case declNode of
                  NameNodeOf n \<Rightarrow>
                    reportUnused (settingUnusedVariable settings) (Some reportUnusedVariable)
                      (Some n) (Some (kindNotAccessedMessage ''Variable'' (nameToken_value n)))
                | OtherNodeOf other \<Rightarrow>
                    reportUnused (settingUnusedVariable settings) None None None)
         | ClassDeclaration node \<Rightarrow>
             if \<not> isPrivate then []
             else
               reportUnused (settingUnusedClass settings) (Some reportUnusedClass)
                 (Some (classNodeName node))
                 (Some (kindNotAccessedMessage ''Class''
                          (nameToken_value (classNodeName node))))
         | FunctionDeclaration node \<Rightarrow>
             if \<not> isPrivate then []
             else
               reportUnused (settingUnusedFunction settings) (Some reportUnusedFunction)
                 (Some (functionName node))
                 (Some (kindNotAccessedMessage ''Function''
                          (nameToken_value (functionName node))))
         | _ \<Rightarrow> [])"

text \<open>\<open>accessedSymbolMap\<close> is the set of the ids of the symbols that were accessed.\<close>

definition conditionallyReportUnusedSymbol ::
  "Env \<Rightarrow> nat set \<Rightarrow> string \<Rightarrow> Symbol \<Rightarrow> ScopeType \<Rightarrow> Emission list" where
  "conditionallyReportUnusedSymbol env accessedSymbolMap name symbol scopeTy =
     (if ignoredForProtocolMatch symbol \<or> symbolId symbol \<in> accessedSymbolMap then []
      else if name = ''_'' then []
      else if isDunderName env name then []
      else
        concat (map (\<lambda>decl. conditionallyReportUnusedDeclaration env decl
                              (isSymbolPrivate env name scopeTy))
                  (declarations symbol)))"

text \<open>\<open>scopedNodeScopes\<close> are the scopes of the recorded scoped nodes
  (\<open>AnalyzerNodeInfo.getScope(scopedNode)\<close>), in the order of \<open>_scopedNodes\<close>.\<close>

definition validateSymbolTables :: "Env \<Rightarrow> nat set \<Rightarrow> Scope list \<Rightarrow> Emission list" where
  "validateSymbolTables env accessedSymbolMap scopedNodeScopes =
     (if isStubFile (fileInfo env) then []
      else
        concat (map (\<lambda>scope.
                  concat (map (\<lambda>(name, symbol).
                            conditionallyReportUnusedSymbol env accessedSymbolMap name symbol
                              (scopeType scope))
                         (symbolTable scope)))
                scopedNodeScopes))"

section \<open>Sample inputs\<close>

text \<open>A small lattice and file to run the walker on: the classes \<open>int\<close>, \<open>str\<close>, \<open>NoReturn\<close>
  and \<open>Iterator\<close>, assignability as equality up to \<open>Any\<close> and \<open>Unknown\<close>, and the naming
  conventions of private (\<open>__x\<close>), protected (\<open>_x\<close>) and dunder (\<open>__x__\<close>) names.\<close>

definition intClass :: ClassType where
  "intClass = ClassType ''int'' True False None"

definition strClass :: ClassType where
  "strClass = ClassType ''str'' True False None"

definition noReturnClass :: ClassType where
  "noReturnClass = ClassType ''NoReturn'' True False None"

definition iteratorClass :: ClassType where
  "iteratorClass = ClassType ''Iterator'' True False None"

fun samplePrintType :: "Type \<Rightarrow> string" where
  "samplePrintType (ObjectType (ClassType n b d (Some (a # as)))) =
     n @ ''['' @ samplePrintType a @ '']''"
| "samplePrintType (ObjectType c) = className c"
| "samplePrintType (ClassT c) = ''Type['' @ className c @ '']''"
| "samplePrintType NoneType = ''None''"
| "samplePrintType NeverType = ''Never''"
| "samplePrintType t = ''Unknown''"

definition sampleCanAssignType :: "Type \<Rightarrow> Type \<Rightarrow> bool \<times> string" where
  "sampleCanAssignType dest src =
     (dest = src \<or> dest = AnyType \<or> dest = UnknownType \<or> src = AnyType \<or>
      src = UnknownType \<or> src = NeverType, [])"

definition sampleCombineTypes :: "Type list \<Rightarrow> Type" where
  "sampleCombineTypes ts =
     (case remdups (filter (\<lambda>t. t \<noteq> NeverType) ts) of
        [] \<Rightarrow> NeverType
      | [t] \<Rightarrow> t
      | us \<Rightarrow> UnionType us)"

definition sampleDoForSubtypes :: "Type \<Rightarrow> (Type \<Rightarrow> Type option) \<Rightarrow> Type" where
  "sampleDoForSubtypes t f =
     (case t of
        UnionType ts \<Rightarrow> sampleCombineTypes (List.map_filter f ts)
      | _ \<Rightarrow> (case f t of Some r \<Rightarrow> r | None \<Rightarrow> NeverType))"

definition sampleTextRangeExtend :: "TextRange \<Rightarrow> TextRange \<Rightarrow> TextRange" where
  "sampleTextRangeExtend r e =
     \<lparr>start = min (start r) (start e),
      rangeLength = max (start r + rangeLength r) (start e + rangeLength e)
                    - min (start r) (start e)\<rparr>"

definition sampleSettings :: DiagnosticSettings where
  "sampleSettings =
     \<lparr>settingUnusedImport = LevelWarning, settingUnusedClass = LevelWarning,
      settingUnusedFunction = LevelWarning, settingUnusedVariable = LevelWarning,
      settingUnnecessaryIsInstance = LevelWarning\<rparr>"

definition sampleName :: "nat \<Rightarrow> string \<Rightarrow> NameNode" where
  "sampleName i v =
     \<lparr>nameBase = ParseNode i ParseNodeType.Name None None,
      nameRange = \<lparr>start = int i, rangeLength = int (length v)\<rparr>,
      nameToken_value = v\<rparr>"

text \<open>\<open>def f(): ...\<close> with node 1 for the function and node 2 for its name.\<close>

definition sampleFunction :: FunctionNode where
  "sampleFunction =
     \<lparr>functionBase = ParseNode 1 ParseNodeType.Function None None,
      functionName = sampleName 2 ''f'',
      parameters = [], decorators = []\<rparr>"

text \<open>The sample environment: a source file \<open>app.py\<close>; every node is reachable and lies in
  \<open>sampleFunction\<close>, whose declared return type is \<open>declared\<close>; the expression with node id
  \<open>n\<close> has the type \<open>typeOf n\<close>.\<close>

definition sampleEnv :: "(nat \<Rightarrow> Type) \<Rightarrow> Type option \<Rightarrow> Env" where
  "sampleEnv typeOf declared =
     \<lparr>fileInfo =
        \<lparr>isStubFile = False, filePath = ''app.py'', diagnosticSettings = sampleSettings\<rparr>,
      getType = (\<lambda>node usage flgs. typeOf (nodeId node)),
      isNodeReachable = (\<lambda>node. True),
      getEnclosingFunction = (\<lambda>node. Some sampleFunction),
      getFunctionDeclaredReturnType = (\<lambda>f. declared),
      isNoReturnType = (\<lambda>t. t = ObjectType noReturnClass),
      specializeType = (\<lambda>t. t),
      canAssignType = sampleCanAssignType,
      printType = samplePrintType,
      getBuiltInType =
        (\<lambda>scope name. if name = ''Iterator'' then ClassT iteratorClass else UnknownType),
      getExpressionType = (\<lambda>node. Some (FunctionT (FunctionType False False declared))),
      getDeclaredGeneratorYieldType = (\<lambda>f iteratorType. declaredReturnType f),
      FlowFlags_Unreachable = 1,
      getTypeOfClass = (\<lambda>node. ClassType (nameToken_value (classNodeName node)) False True None),
      isDerivedFrom = (\<lambda>c base. className c = className base \<or> className base = ''object''),
      combineTypes = sampleCombineTypes,
      isTypeSame = (\<lambda>a b. a = b),
      isAnyOrUnknown = (\<lambda>t. t = AnyType \<or> t = UnknownType),
      doForSubtypes = sampleDoForSubtypes,
      transformTypeObjectToClass = (\<lambda>t. t),
      isPrivateName = (\<lambda>n. length n > 2 \<and> startsWith n ''__'' \<and> \<not> endsWith n ''__''),
      isProtectedName = (\<lambda>n. length n > 1 \<and> startsWith n ''_'' \<and> \<not> startsWith n ''__''),
      isDunderName = (\<lambda>n. length n > 4 \<and> startsWith n ''__'' \<and> endsWith n ''__''),
      TextRange_extend = sampleTextRangeExtend\<rparr>"

text \<open>\<open>def f() -> int: return "x"\<close>: the return statement is node 10, the string node 11.\<close>

definition sampleReturn :: ReturnNode where
  "sampleReturn =
     \<lparr>returnBase = ParseNode 10 ParseNodeType.Return None None,
      returnExpression = Some (ParseNode 11 ParseNodeType.StringList None None)\<rparr>"

text \<open>A bare \<open>return\<close>, node 12.\<close>

definition sampleBareReturn :: ReturnNode where
  "sampleBareReturn =
     \<lparr>returnBase = ParseNode 12 ParseNodeType.Return None None, returnExpression = None\<rparr>"

text \<open>The types of the sample expressions: node 11 is a \<open>str\<close>, node 33 an
  \<open>Iterator[int]\<close>, node 75 the class \<open>int\<close>, every other node an \<open>int\<close>.\<close>

definition sampleTypes :: "nat \<Rightarrow> Type" where
  "sampleTypes n =
     (if n = 11 then ObjectType strClass
      else if n = 33 then ObjectType (cloneForSpecialization iteratorClass [ObjectType intClass])
      else if n = 75 then ClassT intClass
      else ObjectType intClass)"

text \<open>The sample environment with no node reachable.\<close>

definition sampleUnreachableEnv :: "(nat \<Rightarrow> Type) \<Rightarrow> Type option \<Rightarrow> Env" where
  "sampleUnreachableEnv typeOf declared =
     (sampleEnv typeOf declared)\<lparr>isNodeReachable := (\<lambda>node. False)\<rparr>"

text \<open>The ancestors of a node, nearest first: \<open>lineage\<close> starts with the node itself,
  \<open>lineageFrom\<close> with the given parent.\<close>

fun lineage :: "ParseNode \<Rightarrow> ParseNode list" where
  "lineage (ParseNode i t fl p) =
     ParseNode i t fl p # (case p of Some q \<Rightarrow> lineage q | None \<Rightarrow> [])"

definition lineageFrom :: "ParseNode option \<Rightarrow> ParseNode list" where
  "lineageFrom par = (case par of Some q \<Rightarrow> lineage q | None \<Rightarrow> [])"

text \<open>A suite (node 19) whose statement list at node 23 is marked unreachable; the
  name at node 25 inside it carries a flow node of its own without the flag.\<close>

definition sampleSuite :: ParseNode where
  "sampleSuite = ParseNode 19 ParseNodeType.Suite None None"

definition sampleDeadName :: ParseTree where
  "sampleDeadName = ParseTree 25 ParseNodeType.Name (Some \<lparr>flags = 0\<rparr>) []"

definition sampleDeadStatement :: ParseTree where
  "sampleDeadStatement =
     ParseTree 23 ParseNodeType.StatementList (Some \<lparr>flags = 1\<rparr>)
       [ParseTree 24 ParseNodeType.Assignment None [sampleDeadName]]"

definition sampleDeadAssignment :: ParseNode where
  "sampleDeadAssignment =
     ParseNode 24 ParseNodeType.Assignment None
       (Some (nodeOf (Some sampleSuite) sampleDeadStatement))"

text \<open>Handlers that put an error on every node they visit and always descend.\<close>

definition sampleVisitNode :: "ParseNode \<Rightarrow> Emission list \<times> bool" where
  "sampleVisitNode node = ([AddError ''visited'' (AtNode (nodeId node))], True)"

text \<open>The suite at node 19 as a tree: a live line (node 20) with a name (node 21), and the
  unreachable line at node 23.\<close>

definition sampleSuiteTree :: ParseTree where
  "sampleSuiteTree =
     ParseTree 19 ParseNodeType.Suite None
       [ParseTree 20 ParseNodeType.StatementList (Some \<lparr>flags = 0\<rparr>)
          [ParseTree 21 ParseNodeType.Name None []],
        sampleDeadStatement]"

text \<open>\<open>class E(TypedDict)\<close> with the one line \<open>raise E; return\<close>: the line (node 140) is
  reachable, the \<open>raise\<close> (node 141) has no flow node of its own, and the \<open>return\<close> after
  it (node 142) has one, with the flag.\<close>

definition sampleDeadReturnLine :: StatementNode where
  "sampleDeadReturnLine =
     \<lparr>statementBase = ParseNode 140 ParseNodeType.StatementList (Some \<lparr>flags = 0\<rparr>) None,
      substatements =
        [ParseNode 141 (ParseNodeType.Other 0) None
           (Some (ParseNode 140 ParseNodeType.StatementList (Some \<lparr>flags = 0\<rparr>) None)),
         ParseNode 142 ParseNodeType.Return (Some \<lparr>flags = 1\<rparr>)
           (Some (ParseNode 140 ParseNodeType.StatementList (Some \<lparr>flags = 0\<rparr>) None))]\<rparr>"

definition sampleDeadReturnClass :: ClassNode where
  "sampleDeadReturnClass =
     \<lparr>classBase = ParseNode 139 ParseNodeType.Class None None,
      classNodeName = sampleName 138 ''E'',
      classSuite =
        \<lparr>suiteBase = ParseNode 145 ParseNodeType.Suite None None,
         suiteStatements = [sampleDeadReturnLine]\<rparr>\<rparr>"

text \<open>The name \<open>y\<close> at node 57, in unreachable code.\<close>

definition sampleDeadVariableName :: NameNode where
  "sampleDeadVariableName =
     \<lparr>nameBase = ParseNode 57 ParseNodeType.Name (Some \<lparr>flags = 1\<rparr>) None,
      nameRange = \<lparr>start = 57, rangeLength = 1\<rparr>,
      nameToken_value = ''y''\<rparr>"






text \<open>The statements of a class body, in the words of the specification: the simple
  statements of each line and the compound statements, each as reachable as the statement of
  the suite it belongs to.\<close>

definition statementsOf :: "StatementNode \<Rightarrow> ParseNode list" where
  "statementsOf statement =
     (if nodeType (statementBase statement) = ParseNodeType.StatementList
      then substatements statement
      else [statementBase statement])"

definition reachableStatements :: "Env \<Rightarrow> SuiteNode \<Rightarrow> ParseNode list" where
  "reachableStatements env suiteNode =
     concat (map (\<lambda>statement.
                    if isCodeUnreachable env (statementBase statement) then []
                    else statementsOf statement)
               (suiteStatements suiteNode))"

text \<open>The parser puts type annotations, strings, ellipses and \<open>pass\<close> only inside statement
  lists: a statement of a suite is a statement list or a compound statement.\<close>

definition suiteWellFormed :: "SuiteNode \<Rightarrow> bool" where
  "suiteWellFormed suiteNode =
     (\<forall>statement \<in> set (suiteStatements suiteNode).
        nodeType (statementBase statement) \<noteq> ParseNodeType.StatementList \<longrightarrow>
        nodeType (statementBase statement) \<notin>
          {ParseNodeType.TypeAnnotation, ParseNodeType.StringList, ParseNodeType.Ellipsis,
           ParseNodeType.Pass})"

text \<open>\<open>class D(TypedDict)\<close> with the lines \<open>x: int\<close> (nodes 40, 41) and \<open>y = 5\<close> (nodes 42,
  43), followed by an unreachable \<open>z = 6\<close> (nodes 46, 47).\<close>

definition sampleLine :: "nat \<Rightarrow> FlowFlags \<Rightarrow> ParseNodeType \<Rightarrow> StatementNode" where
  "sampleLine i fl kind =
     \<lparr>statementBase = ParseNode i ParseNodeType.StatementList (Some \<lparr>flags = fl\<rparr>) None,
      substatements =
        [ParseNode (Suc i) kind None
           (Some (ParseNode i ParseNodeType.StatementList (Some \<lparr>flags = fl\<rparr>) None))]\<rparr>"

definition sampleTypedDict :: ClassNode where
  "sampleTypedDict =
     \<lparr>classBase = ParseNode 39 ParseNodeType.Class None None,
      classNodeName = sampleName 38 ''D'',
      classSuite =
        \<lparr>suiteBase = ParseNode 45 ParseNodeType.Suite None None,
         suiteStatements =
           [sampleLine 40 0 ParseNodeType.TypeAnnotation,
            sampleLine 42 0 ParseNodeType.Assignment,
            sampleLine 46 1 ParseNodeType.Assignment]\<rparr>\<rparr>"

text \<open>The tag \<open>decl.type\<close> of a declaration.\<close>

datatype DeclarationType = BuiltIn | Variable | Parameter | Function | Method | Class | Alias

fun declarationType :: "Declaration \<Rightarrow> DeclarationType" where
  "declarationType (AliasDeclaration n) = DeclarationType.Alias"
| "declarationType (VariableDeclaration n) = DeclarationType.Variable"
| "declarationType (ParameterDeclaration n) = DeclarationType.Parameter"
| "declarationType (ClassDeclaration n) = DeclarationType.Class"
| "declarationType (FunctionDeclaration n) = DeclarationType.Function"
| "declarationType (MethodDeclaration n) = DeclarationType.Method"
| "declarationType BuiltInDeclaration = DeclarationType.BuiltIn"

text \<open>The sample file as the generated file \<open>gen_pb2.py\<close>, and as a stub file.\<close>

definition samplePb2Env :: Env where
  "samplePb2Env =
     (sampleEnv sampleTypes None)
       \<lparr>fileInfo := \<lparr>isStubFile = False, filePath = ''gen_pb2.py'',
                     diagnosticSettings = sampleSettings\<rparr>\<rparr>"

definition sampleStubEnv :: Env where
  "sampleStubEnv =
     (sampleEnv sampleTypes None)
       \<lparr>fileInfo := \<lparr>isStubFile = True, filePath = ''app.pyi'',
                     diagnosticSettings = sampleSettings\<rparr>\<rparr>"

text \<open>A local variable \<open>x\<close> (symbol 1, declared at node 50).\<close>

definition sampleVariable :: Symbol where
  "sampleVariable =
     \<lparr>symbolId = 1, ignoredForProtocolMatch = False,
      declarations = [VariableDeclaration (NameNodeOf (sampleName 50 ''x''))]\<rparr>"

text \<open>\<open>import os\<close> (symbol 2, the name at node 52) and \<open>import __future__ as fut\<close>
  (symbol 3, the module name at node 54, the alias at node 55).\<close>

definition sampleImportOs :: Symbol where
  "sampleImportOs =
     \<lparr>symbolId = 2, ignoredForProtocolMatch = False,
      declarations =
        [AliasDeclaration (ImportAsNodeOf
           \<lparr>importAsBase = ParseNode 51 ParseNodeType.ImportAs None None,
            importAsModule = \<lparr>nameParts = [sampleName 52 ''os'']\<rparr>,
            importAsAlias = None\<rparr>)]\<rparr>"

definition sampleImportFuture :: Symbol where
  "sampleImportFuture =
     \<lparr>symbolId = 3, ignoredForProtocolMatch = False,
      declarations =
        [AliasDeclaration (ImportAsNodeOf
           \<lparr>importAsBase = ParseNode 53 ParseNodeType.ImportAs None None,
            importAsModule = \<lparr>nameParts = [sampleName 54 ''__future__'']\<rparr>,
            importAsAlias = Some (sampleName 55 ''fut'')\<rparr>)]\<rparr>"

text \<open>\<open>from M import name\<close> with the import-from node \<open>i\<close>, the parts of \<open>M\<close> numbered from
  \<open>i + 1\<close> and the imported name at node \<open>i + 10\<close>.\<close>

definition sampleFromImport :: "nat \<Rightarrow> string list \<Rightarrow> string \<Rightarrow> ImportFromAsNode" where
  "sampleFromImport i moduleName name =
     \<lparr>importFromAsBase = ParseNode (i + 9) ParseNodeType.ImportFromAs None None,
      importFromAsName = sampleName (i + 10) name,
      importFromAsAlias = None,
      importFromAsParent =
        \<lparr>importFromBase = ParseNode i ParseNodeType.ImportFrom None None,
         importFromModule =
           \<lparr>nameParts = map (\<lambda>(k, part). sampleName (i + 1 + k) part)
                          (enumerate 0 moduleName)\<rparr>\<rparr>\<rparr>"

definition sampleModuleScope :: "(string \<times> Symbol) list \<Rightarrow> Scope" where
  "sampleModuleScope table = \<lparr>scopeType = ScopeType.Module, symbolTable = table\<rparr>"

text \<open>A method \<open>def m(...)\<close> (nodes 65 and 66) with the given parameters and decorators.\<close>

definition sampleMethod :: "ParameterNode list \<Rightarrow> ParseNode list \<Rightarrow> FunctionNode" where
  "sampleMethod ps ds =
     \<lparr>functionBase = ParseNode 65 ParseNodeType.Function None None,
      functionName = sampleName 66 ''m'',
      parameters = ps, decorators = ds\<rparr>"

definition sampleParameter :: "nat \<Rightarrow> string \<Rightarrow> ParameterNode" where
  "sampleParameter i v =
     \<lparr>parameterBase = ParseNode i ParseNodeType.Parameter None None,
      category = ParameterCategory.Simple,
      parameterName = Some (sampleName (Suc i) v)\<rparr>"
















text \<open>The privacy of a symbol, in the words of the amended claim C7: the symbol lives in a
  function or list-comprehension scope, or its name is a private name, or its name is a
  protected name and its scope is not a class scope.\<close>

definition privateSymbol :: "Env \<Rightarrow> string \<Rightarrow> ScopeType \<Rightarrow> bool" where
  "privateSymbol env name scopeTy =
     (scopeTy = ScopeType.Function \<or> scopeTy = ScopeType.ListComprehension \<or>
      isPrivateName env name \<or>
      (isProtectedName env name \<and> scopeTy \<noteq> ScopeType.Class))"

text \<open>The declarations that claim C7 is about, a symbol without them, and a scope in which
  they are removed from every symbol that is not private.\<close>

definition namedDeclaration :: "Declaration \<Rightarrow> bool" where
  "namedDeclaration decl =
     (declarationType decl \<in>
        {DeclarationType.Variable, DeclarationType.Parameter, DeclarationType.Class,
         DeclarationType.Function})"

definition withoutNamedDeclarations :: "Symbol \<Rightarrow> Symbol" where
  "withoutNamedDeclarations symbol =
     symbol\<lparr>declarations := filter (\<lambda>decl. \<not> namedDeclaration decl) (declarations symbol)\<rparr>"

definition withoutUnreportedDeclarations :: "Env \<Rightarrow> Scope \<Rightarrow> Scope" where
  "withoutUnreportedDeclarations env scope =
     scope\<lparr>symbolTable :=
             map (\<lambda>(name, symbol).
                    (name, if privateSymbol env name (scopeType scope) then symbol
                           else withoutNamedDeclarations symbol))
               (symbolTable scope)\<rparr>"

text \<open>The symbol \<open>os\<close> with a variable declaration (node 56) besides its \<open>import os\<close>.\<close>

definition sampleMixedSymbol :: Symbol where
  "sampleMixedSymbol =
     sampleImportOs
       \<lparr>declarations :=
          VariableDeclaration (NameNodeOf (sampleName 56 ''os'')) #
          declarations sampleImportOs\<rparr>"

section \<open>Return statements\<close>



text \<open>
  Claim C2, as stated: every return statement inside a function whose declared return type
  is NoReturn gets the error "Function with declared return type 'NoReturn' cannot include
  a return statement". It fails for a return statement that the evaluator reports as not
  reachable: the bare \<open>return\<close> below lies in a function declared NoReturn and nothing is
  emitted for it.
\<close>

theorem visitReturn_noReturn_counterexample:
  "getEnclosingFunction (sampleUnreachableEnv sampleTypes (Some (ObjectType noReturnClass)))
     (returnBase sampleBareReturn) = Some sampleFunction \<and>
   getFunctionDeclaredReturnType
     (sampleUnreachableEnv sampleTypes (Some (ObjectType noReturnClass))) sampleFunction =
     Some (ObjectType noReturnClass) \<and>
   isNoReturnType (sampleUnreachableEnv sampleTypes (Some (ObjectType noReturnClass)))
     (ObjectType noReturnClass) \<and>
   fst (visitReturn (sampleUnreachableEnv sampleTypes (Some (ObjectType noReturnClass)))
          sampleBareReturn) = []"
  by (simp add: sampleUnreachableEnv_def sampleEnv_def visitReturn_def sampleBareReturn_def)

text \<open>
  Claim C2, amended: every reachable return statement inside a function whose declared
  return type is NoReturn gets exactly that error, on the return statement; a return
  statement that is not reachable gets no error.
\<close>

theorem visitReturn_noReturn:
  "(isNodeReachable env (returnBase node) \<and>
    getEnclosingFunction env (returnBase node) = Some f \<and>
    getFunctionDeclaredReturnType env f = Some declared \<and>
    isNoReturnType env declared \<longrightarrow>
    fst (visitReturn env node) =
      [AddError noReturnReturnMessage (AtNode (nodeId (returnBase node)))]) \<and>
   (\<not> isNodeReachable env (returnBase node') \<longrightarrow> fst (visitReturn env node') = [])"
  by (simp add: visitReturn_def Let_def)

text \<open>The scenario \<open>def f() -> NoReturn: return\<close>, with the \<open>return\<close> reachable and not.\<close>

theorem visitReturn_noReturn_witness:
  "isNodeReachable (sampleEnv sampleTypes (Some (ObjectType noReturnClass)))
     (returnBase sampleBareReturn) \<and>
   getEnclosingFunction (sampleEnv sampleTypes (Some (ObjectType noReturnClass)))
     (returnBase sampleBareReturn) = Some sampleFunction \<and>
   getFunctionDeclaredReturnType (sampleEnv sampleTypes (Some (ObjectType noReturnClass)))
     sampleFunction = Some (ObjectType noReturnClass) \<and>
   isNoReturnType (sampleEnv sampleTypes (Some (ObjectType noReturnClass)))
     (ObjectType noReturnClass) \<and>
   fst (visitReturn (sampleEnv sampleTypes (Some (ObjectType noReturnClass)))
          sampleBareReturn) =
     [AddError
        ''Function with declared return type 'NoReturn' cannot include a return statement''
        (AtNode 12)] \<and>
   \<not> isNodeReachable (sampleUnreachableEnv sampleTypes (Some (ObjectType intClass)))
       (returnBase sampleReturn) \<and>
   fst (visitReturn (sampleUnreachableEnv sampleTypes (Some (ObjectType intClass)))
          sampleReturn) = []"
proof -
  let ?env = "sampleEnv sampleTypes (Some (ObjectType noReturnClass))"
  let ?dead = "sampleUnreachableEnv sampleTypes (Some (ObjectType intClass))"
  have h1: "isNodeReachable ?env (returnBase sampleBareReturn)"
    by (simp add: sampleEnv_def)
  have h2: "getEnclosingFunction ?env (returnBase sampleBareReturn) = Some sampleFunction"
    by (simp add: sampleEnv_def)
  have h3: "getFunctionDeclaredReturnType ?env sampleFunction =
              Some (ObjectType noReturnClass)"
    by (simp add: sampleEnv_def)
  have h4: "isNoReturnType ?env (ObjectType noReturnClass)"
    by (simp add: sampleEnv_def)
  have h5: "\<not> isNodeReachable ?dead (returnBase sampleReturn)"
    by (simp add: sampleUnreachableEnv_def)
  show ?thesis
    using h1 h2 h3 h4 h5
      visitReturn_noReturn [of ?env sampleBareReturn sampleFunction
        "ObjectType noReturnClass" sampleBareReturn]
      visitReturn_noReturn [of ?dead sampleReturn sampleFunction "ObjectType intClass"
        sampleReturn]
    by (simp add: sampleBareReturn_def noReturnReturnMessage_def)
qed

section \<open>Unreachable code\<close>

lemma isCodeUnreachable_nearest:
  "isCodeUnreachable env n =
     (case nearestFlowNode n of
        Some f \<Rightarrow> flags f AND FlowFlags_Unreachable env \<noteq> 0
      | None \<Rightarrow> False)"
  by (induction env n rule: isCodeUnreachable.induct) (simp split: option.splits)

lemma walk_unreachable_empty:
  "isCodeUnreachable env (nodeOf par t) \<Longrightarrow> walk env visitNode par t = []"
  by simp

text \<open>Every node that a walk visits is reachable, and so is each of its ancestors up to
  the node the walk started at.\<close>

lemma walk_lineage_reachable:
  "(n, emitted) \<in> set (walk env visitNode par t) \<Longrightarrow> a \<in> set (lineage n) \<Longrightarrow>
     a \<in> set (lineageFrom par) \<or> \<not> isCodeUnreachable env a"
  and superWalk_lineage_reachable:
  "(n, emitted) \<in> set (superWalk env visitNode par t) \<Longrightarrow> a \<in> set (lineage n) \<Longrightarrow>
     \<not> isCodeUnreachable env (nodeOf par t) \<Longrightarrow>
     a \<in> set (lineageFrom par) \<or> \<not> isCodeUnreachable env a"
  and walkMultiple_lineage_reachable:
  "(n, emitted) \<in> set (walkMultiple env visitNode par ts) \<Longrightarrow> a \<in> set (lineage n) \<Longrightarrow>
     a \<in> set (lineageFrom par) \<or> \<not> isCodeUnreachable env a"
proof (induction env visitNode par t and env visitNode par t and env visitNode par ts
    arbitrary: n emitted a and n emitted a and n emitted a
    rule: walk_superWalk_walkMultiple.induct)
  case (1 env visitNode par node)
  then show ?case
    by (auto simp del: isCodeUnreachable.simps split: if_splits)
next
  case (2 env visitNode par i t fl cs)
  let ?node = "ParseNode i t fl par"
  have reach: "\<not> isCodeUnreachable env ?node"
    using "2.prems"(3) by (simp add: nodeOf_def)
  obtain ems descend where v: "visitNode ?node = (ems, descend)"
    by (cases "visitNode ?node")
  from "2.prems"(1) v
  consider (self) "n = ?node"
    | (child) "descend" "(n, emitted) \<in> set (walkMultiple env visitNode (Some ?node) cs)"
    by (auto split: if_splits)
  then show ?case
  proof cases
    case self
    with "2.prems"(2) reach show ?thesis
      by (auto simp: lineageFrom_def simp del: isCodeUnreachable.simps)
  next
    case child
    have "a \<in> set (lineageFrom (Some ?node)) \<or> \<not> isCodeUnreachable env a"
      using "2.IH" [OF refl v [symmetric] child(1) child(2) "2.prems"(2)] .
    with reach show ?thesis
      by (auto simp: lineageFrom_def simp del: isCodeUnreachable.simps)
  qed
next
  case (3 env visitNode par)
  then show ?case by simp
next
  case (4 env visitNode par node nodes)
  from "4.prems"(1)
  have "(n, emitted) \<in> set (walk env visitNode par node) \<or>
        (n, emitted) \<in> set (walkMultiple env visitNode par nodes)"
    by (simp del: walk.simps)
  then show ?case
    using "4.IH" "4.prems"(2) by blast
qed

text \<open>
  Claim C3, as stated: for every parse node whose nearest enclosing flow node carries the
  Unreachable flag, the walker does not descend into that node, and no diagnostic is
  emitted for it or for any node in its subtree. The second half fails where a diagnostic
  is put on a node by something other than that node's own visit. The TypedDict check of a
  class tests the reachability of a line, not of its substatements: in the line
  \<open>raise E; return\<close> (nodes 140 to 142) the \<open>return\<close> carries a flow node of its own with
  the flag and gets the error. And the unused-symbol sweep tests no reachability: the
  unused local variable \<open>y\<close>, declared at the name node 57 whose flow node has the flag, is
  reported on that node.
\<close>

theorem unreachable_target_counterexample:
  "nearestFlowNode (ParseNode 142 ParseNodeType.Return (Some \<lparr>flags = 1\<rparr>)
      (Some (statementBase sampleDeadReturnLine))) = Some \<lparr>flags = 1\<rparr> \<and>
   flags \<lparr>flags = 1\<rparr> AND FlowFlags_Unreachable (sampleEnv sampleTypes None) \<noteq> 0 \<and>
   visitClassTypedDict (sampleEnv sampleTypes None) sampleDeadReturnClass =
     [AddError ''TypedDict classes can contain only type annotations'' (AtNode 141),
      AddError ''TypedDict classes can contain only type annotations'' (AtNode 142)] \<and>
   nearestFlowNode (nameBase sampleDeadVariableName) = Some \<lparr>flags = 1\<rparr> \<and>
   validateSymbolTables (sampleEnv sampleTypes None) {}
     [\<lparr>scopeType = ScopeType.Function,
       symbolTable =
         [(''y'', \<lparr>symbolId = 5, ignoredForProtocolMatch = False,
                   declarations = [VariableDeclaration (NameNodeOf sampleDeadVariableName)]\<rparr>)]\<rparr>] =
     [AddUnusedCode (tick @ ''y' is not accessed'') (AtNode 57),
      AddDiagnostic LevelWarning reportUnusedVariable ''Variable 'y' is not accessed''
        (AtNode 57)]"
proof -
  let ?env = "sampleEnv sampleTypes None"
  have mask: "FlowFlags_Unreachable ?env = 1" and source: "\<not> isStubFile (fileInfo ?env)"
    and dunder: "\<not> isDunderName ?env ''y''"
    and level: "settingUnusedVariable (diagnosticSettings (fileInfo ?env)) = LevelWarning"
    by (simp_all add: sampleEnv_def sampleSettings_def startsWith_def)
  have typedDict: "isTypedDictClass (getTypeOfClass ?env sampleDeadReturnClass)"
    by (simp add: isTypedDictClass_def sampleEnv_def)
  have check: "visitClassTypedDict ?env sampleDeadReturnClass =
     [AddError ''TypedDict classes can contain only type annotations'' (AtNode 141),
      AddError ''TypedDict classes can contain only type annotations'' (AtNode 142)]"
    using typedDict
    by (simp add: visitClassTypedDict_def validateTypedDictClassSuite_def
        validateTypedDictStatement_def sampleDeadReturnClass_def sampleDeadReturnLine_def
        allowedInTypedDict_def emitBadStatementError_def typedDictMessage_def mask)
  have sweep: "validateSymbolTables ?env {}
     [\<lparr>scopeType = ScopeType.Function,
       symbolTable =
         [(''y'', \<lparr>symbolId = 5, ignoredForProtocolMatch = False,
                   declarations = [VariableDeclaration (NameNodeOf sampleDeadVariableName)]\<rparr>)]\<rparr>] =
     [AddUnusedCode (tick @ ''y' is not accessed'') (AtNode 57),
      AddDiagnostic LevelWarning reportUnusedVariable ''Variable 'y' is not accessed''
        (AtNode 57)]"
    by (simp add: validateSymbolTables_def conditionallyReportUnusedSymbol_def
        conditionallyReportUnusedDeclaration_def isSymbolPrivate_def reportUnused_def
        source dunder level sampleDeadVariableName_def notAccessedMessage_def
        kindNotAccessedMessage_def tick_def)
  show ?thesis
    using check sweep by (simp add: mask sampleDeadVariableName_def)
qed

text \<open>
  Claim C3, amended. Let \<open>a\<close> be a parse node whose nearest enclosing flow node carries the
  Unreachable flag. The walker does not descend into \<open>a\<close>: walking \<open>a\<close> runs no visit
  handler, neither for \<open>a\<close> nor for a node below it, and emits nothing. And no walk started
  at \<open>a\<close> or above it runs a visit handler, so that none emits a diagnostic, for \<open>a\<close> or for
  a node in the subtree of \<open>a\<close>: a visited node can have \<open>a\<close> among its ancestors only when
  \<open>a\<close> is above the node the walk was started at.
\<close>

theorem walk_skips_unreachable:
  assumes "nearestFlowNode a = Some f"
    and "flags f AND FlowFlags_Unreachable env \<noteq> 0"
  shows "(nodeOf par t = a \<longrightarrow> walk env visitNode par t = []) \<and>
         ((n, emitted) \<in> set (walk env visitNode par' t') \<and> a \<in> set (lineage n)
            \<longrightarrow> a \<in> set (lineageFrom par'))"
proof -
  have dead: "isCodeUnreachable env a"
    using assms by (simp add: isCodeUnreachable_nearest)
  show ?thesis
    using dead walk_unreachable_empty walk_lineage_reachable by blast
qed

text \<open>With handlers that put an error on every node they visit: of the suite at node 19
  the live line (nodes 20 and 21) is visited and the line at node 23 is skipped as a whole;
  the name at node 25, walked on its own, is visited although it lies below node 23, which
  is then above the start.\<close>

theorem walk_skips_unreachable_witness:
  "nearestFlowNode (nodeOf (Some sampleSuite) sampleDeadStatement) = Some \<lparr>flags = 1\<rparr> \<and>
   flags \<lparr>flags = 1\<rparr> AND FlowFlags_Unreachable (sampleEnv sampleTypes None) \<noteq> 0 \<and>
   walk (sampleEnv sampleTypes None) sampleVisitNode (Some sampleSuite)
     sampleDeadStatement = [] \<and>
   concat (map snd (walk (sampleEnv sampleTypes None) sampleVisitNode None sampleSuiteTree)) =
     [AddError ''visited'' (AtNode 19), AddError ''visited'' (AtNode 20),
      AddError ''visited'' (AtNode 21)] \<and>
   (nodeOf (Some sampleDeadAssignment) sampleDeadName, [AddError ''visited'' (AtNode 25)])
     \<in> set (walk (sampleEnv sampleTypes None) sampleVisitNode (Some sampleDeadAssignment)
              sampleDeadName) \<and>
   nodeOf (Some sampleSuite) sampleDeadStatement
     \<in> set (lineage (nodeOf (Some sampleDeadAssignment) sampleDeadName)) \<and>
   nodeOf (Some sampleSuite) sampleDeadStatement
     \<in> set (lineageFrom (Some sampleDeadAssignment))"
proof -
  let ?env = "sampleEnv sampleTypes None"
  let ?a = "nodeOf (Some sampleSuite) sampleDeadStatement"
  let ?n = "nodeOf (Some sampleDeadAssignment) sampleDeadName"
  have mask: "FlowFlags_Unreachable ?env = 1"
    by (simp add: sampleEnv_def)
  have h1: "nearestFlowNode ?a = Some \<lparr>flags = 1\<rparr>"
    by (simp add: nodeOf_def sampleDeadStatement_def)
  have h2: "flags \<lparr>flags = 1\<rparr> AND FlowFlags_Unreachable ?env \<noteq> 0"
    by (simp add: mask)
  have h3: "(?n, [AddError ''visited'' (AtNode 25)])
              \<in> set (walk ?env sampleVisitNode (Some sampleDeadAssignment) sampleDeadName)"
    by (simp add: nodeOf_def sampleDeadName_def sampleVisitNode_def mask)
  have h4: "?a \<in> set (lineage ?n)"
    by (simp add: nodeOf_def sampleDeadName_def sampleDeadAssignment_def
        sampleDeadStatement_def)
  have whole: "concat (map snd (walk ?env sampleVisitNode None sampleSuiteTree)) =
     [AddError ''visited'' (AtNode 19), AddError ''visited'' (AtNode 20),
      AddError ''visited'' (AtNode 21)]"
    by (simp add: sampleSuiteTree_def sampleDeadStatement_def sampleDeadName_def nodeOf_def
        sampleVisitNode_def mask)
  show ?thesis
    using h1 h2 h3 h4 whole
      walk_skips_unreachable [OF h1 h2, of "Some sampleSuite" sampleDeadStatement
        sampleVisitNode ?n "[AddError ''visited'' (AtNode 25)]"
        "Some sampleDeadAssignment" sampleDeadName]
    by simp
qed

section \<open>Yield statements\<close>





section \<open>TypedDict class bodies\<close>

lemma validateTypedDictStatement_filter:
  assumes "nodeType (statementBase statement) \<noteq> ParseNodeType.StatementList \<longrightarrow>
           nodeType (statementBase statement) \<notin>
             {ParseNodeType.TypeAnnotation, ParseNodeType.StringList,
              ParseNodeType.Ellipsis, ParseNodeType.Pass}"
  shows "validateTypedDictStatement env statement =
     map emitBadStatementError
       (filter (\<lambda>s. nodeType s \<notin>
                  {ParseNodeType.TypeAnnotation, ParseNodeType.StringList,
                   ParseNodeType.Ellipsis, ParseNodeType.Pass})
          (if isCodeUnreachable env (statementBase statement) then []
           else statementsOf statement))"
proof -
  have allowed: "\<And>t. allowedInTypedDict t \<longleftrightarrow>
      t \<in> {ParseNodeType.TypeAnnotation, ParseNodeType.StringList,
            ParseNodeType.Ellipsis, ParseNodeType.Pass}"
    by (auto simp: allowedInTypedDict_def)
  show ?thesis
    using assms
    by (simp add: validateTypedDictStatement_def statementsOf_def allowed)
qed

text \<open>
  Claim C6. For a class marked as a TypedDict, each reachable statement of its suite that is
  not a type annotation, a string, an ellipsis or a pass statement produces exactly one
  error "TypedDict classes can contain only type annotations" on that statement, and the
  statements of the allowed kinds produce none: the errors of the check are, in order, one
  per offending reachable statement and nothing else.
\<close>

theorem typedDict_suite_errors:
  assumes "isTypedDictClass (getTypeOfClass env node)"
    and "suiteWellFormed (classSuite node)"
  shows "visitClassTypedDict env node =
     map (\<lambda>s. AddError ''TypedDict classes can contain only type annotations''
                 (AtNode (nodeId s)))
       (filter (\<lambda>s. nodeType s \<notin>
                  {ParseNodeType.TypeAnnotation, ParseNodeType.StringList,
                   ParseNodeType.Ellipsis, ParseNodeType.Pass})
          (reachableStatements env (classSuite node)))"
proof -
  have each: "\<forall>statement \<in> set (suiteStatements (classSuite node)).
      validateTypedDictStatement env statement =
        map emitBadStatementError
          (filter (\<lambda>s. nodeType s \<notin>
                     {ParseNodeType.TypeAnnotation, ParseNodeType.StringList,
                      ParseNodeType.Ellipsis, ParseNodeType.Pass})
             (if isCodeUnreachable env (statementBase statement) then []
              else statementsOf statement))"
    using assms(2) validateTypedDictStatement_filter
    by (simp add: suiteWellFormed_def)
  have emit: "emitBadStatementError =
      (\<lambda>s. AddError ''TypedDict classes can contain only type annotations''
              (AtNode (nodeId s)))"
    by (rule ext) (simp add: emitBadStatementError_def typedDictMessage_def)
  have "validateTypedDictClassSuite env (classSuite node) =
      map emitBadStatementError
        (filter (\<lambda>s. nodeType s \<notin>
                   {ParseNodeType.TypeAnnotation, ParseNodeType.StringList,
                    ParseNodeType.Ellipsis, ParseNodeType.Pass})
           (reachableStatements env (classSuite node)))"
    using each
    unfolding validateTypedDictClassSuite_def reachableStatements_def
    by (induction "suiteStatements (classSuite node)") (simp_all add: map_concat filter_concat comp_def cong: map_cong)
  then show ?thesis
    using assms(1) by (simp add: visitClassTypedDict_def emit)
qed

text \<open>The scenario \<open>class D(TypedDict): x: int; y = 5\<close>: one error, on \<open>y = 5\<close>; the
  unreachable \<open>z = 6\<close> gets none.\<close>

theorem typedDict_suite_errors_witness:
  "isTypedDictClass (getTypeOfClass (sampleEnv sampleTypes None) sampleTypedDict) \<and>
   suiteWellFormed (classSuite sampleTypedDict) \<and>
   visitClassTypedDict (sampleEnv sampleTypes None) sampleTypedDict =
     [AddError ''TypedDict classes can contain only type annotations'' (AtNode 43)]"
proof -
  let ?env = "sampleEnv sampleTypes None"
  have h1: "isTypedDictClass (getTypeOfClass ?env sampleTypedDict)"
    by (simp add: isTypedDictClass_def sampleEnv_def)
  have h2: "suiteWellFormed (classSuite sampleTypedDict)"
    by (simp add: suiteWellFormed_def sampleTypedDict_def sampleLine_def)
  have mask: "FlowFlags_Unreachable ?env = 1"
    by (simp add: sampleEnv_def)
  have stmts: "reachableStatements ?env (classSuite sampleTypedDict) =
      [ParseNode 41 ParseNodeType.TypeAnnotation None
         (Some (ParseNode 40 ParseNodeType.StatementList (Some \<lparr>flags = 0\<rparr>) None)),
       ParseNode 43 ParseNodeType.Assignment None
         (Some (ParseNode 42 ParseNodeType.StatementList (Some \<lparr>flags = 0\<rparr>) None))]"
    by (simp add: reachableStatements_def statementsOf_def sampleTypedDict_def
        sampleLine_def mask)
  show ?thesis
    using h1 h2 typedDict_suite_errors [OF h1 h2]
    by (simp add: stmts)
qed

section \<open>The unused-symbol sweep\<close>

text \<open>
  Claim C7, as stated: a Variable, Parameter, Class or Function declaration is reported as
  unused only if the symbol is private, where a name is private exactly when it starts with
  a private-name prefix, or starts with a protected-name prefix and is not inside a class
  scope. It fails in a function scope: the local variable \<open>x\<close>, whose name is neither a
  private nor a protected name, is reported.
\<close>

theorem unused_local_variable_counterexample:
  "conditionallyReportUnusedSymbol (sampleEnv sampleTypes None) {} ''x'' sampleVariable
     ScopeType.Function =
     [AddUnusedCode (tick @ ''x' is not accessed'') (AtNode 50),
      AddDiagnostic LevelWarning reportUnusedVariable ''Variable 'x' is not accessed''
        (AtNode 50)] \<and>
   \<not> isPrivateName (sampleEnv sampleTypes None) ''x'' \<and>
   \<not> isProtectedName (sampleEnv sampleTypes None) ''x''"
  by (simp add: conditionallyReportUnusedSymbol_def conditionallyReportUnusedDeclaration_def
      isSymbolPrivate_def reportUnused_def sampleVariable_def sampleName_def sampleEnv_def
      sampleSettings_def notAccessedMessage_def kindNotAccessedMessage_def tick_def
      startsWith_def endsWith_def)

text \<open>
  Claim C7, amended: in the unused-symbol sweep, a Variable, Parameter, Class or Function
  declaration is reported as unused only if the symbol is private, where a symbol is
  private exactly when its scope is a function or list-comprehension scope, or its name is
  a private name, or its name is a protected name and its scope is not a class scope. For
  a symbol that is not private, what the sweep reports is what it reports for the symbol
  without these declarations; a symbol that has only such declarations and is reported is
  private; and the validation of all symbol tables reports what it reports once these
  declarations are removed from every symbol that is not private.
\<close>

theorem unused_declaration_only_if_private:
  "(\<not> privateSymbol env name scopeTy \<longrightarrow>
      conditionallyReportUnusedSymbol env accessedSymbolMap name symbol scopeTy =
      conditionallyReportUnusedSymbol env accessedSymbolMap name
        (withoutNamedDeclarations symbol) scopeTy) \<and>
   (list_all namedDeclaration (declarations symbol') \<and>
    conditionallyReportUnusedSymbol env accessedSymbolMap name' symbol' scopeTy' \<noteq> [] \<longrightarrow>
      privateSymbol env name' scopeTy') \<and>
   validateSymbolTables env accessedSymbolMap scopedNodeScopes =
     validateSymbolTables env accessedSymbolMap
       (map (withoutUnreportedDeclarations env) scopedNodeScopes)"
proof -
  have flag: "isSymbolPrivate env n ty = privateSymbol env n ty" for n ty
    by (auto simp: isSymbolPrivate_def privateSymbol_def)
  have silent: "conditionallyReportUnusedDeclaration env d False = []"
    if "namedDeclaration d" for d
    using that
    by (cases d) (simp_all add: conditionallyReportUnusedDeclaration_def
        namedDeclaration_def)
  have dropped: "concat (map (\<lambda>d. conditionallyReportUnusedDeclaration env d False) ds) =
      concat (map (\<lambda>d. conditionallyReportUnusedDeclaration env d False)
                (filter (\<lambda>d. \<not> namedDeclaration d) ds))" for ds
    by (induction ds) (simp_all add: silent)
  have one: "conditionallyReportUnusedSymbol env accessedSymbolMap n s ty =
      conditionallyReportUnusedSymbol env accessedSymbolMap n (withoutNamedDeclarations s) ty"
    if "\<not> privateSymbol env n ty" for n s ty
    using that dropped [of "declarations s"]
    by (simp add: conditionallyReportUnusedSymbol_def withoutNamedDeclarations_def flag)
  have only: "privateSymbol env n ty"
    if "list_all namedDeclaration (declarations s)"
      and "conditionallyReportUnusedSymbol env accessedSymbolMap n s ty \<noteq> []" for n s ty
  proof (rule ccontr)
    assume "\<not> privateSymbol env n ty"
    moreover have "filter (\<lambda>d. \<not> namedDeclaration d) (declarations s) = []"
      using that(1) by (simp add: list_all_iff)
    ultimately have "conditionallyReportUnusedSymbol env accessedSymbolMap n s ty = []"
      using one [of n ty s]
      by (simp add: conditionallyReportUnusedSymbol_def withoutNamedDeclarations_def)
    with that(2) show False by simp
  qed
  have entry: "conditionallyReportUnusedSymbol env accessedSymbolMap n
                 (if privateSymbol env n ty then s else withoutNamedDeclarations s) ty =
               conditionallyReportUnusedSymbol env accessedSymbolMap n s ty" for n s ty
    using one [of n ty s] by simp
  have all: "validateSymbolTables env accessedSymbolMap scopedNodeScopes =
     validateSymbolTables env accessedSymbolMap
       (map (withoutUnreportedDeclarations env) scopedNodeScopes)"
    by (simp add: validateSymbolTables_def withoutUnreportedDeclarations_def comp_def
        case_prod_unfold entry)
  from one only all show ?thesis by blast
qed

text \<open>At module level the unused variable \<open>os\<close> is not reported, the unused \<open>import os\<close> of
  the same symbol is; the local variable \<open>x\<close> of a function is reported and is private.\<close>

theorem unused_declaration_only_if_private_witness:
  "\<not> privateSymbol (sampleEnv sampleTypes None) ''os'' ScopeType.Module \<and>
   conditionallyReportUnusedSymbol (sampleEnv sampleTypes None) {} ''os'' sampleMixedSymbol
     ScopeType.Module =
     [AddUnusedCode (tick @ ''os' is not accessed'')
        (AtRange \<lparr>start = 52, rangeLength = 2\<rparr>),
      AddDiagnostic LevelWarning reportUnusedImport ''Import 'os' is not accessed''
        (AtRange \<lparr>start = 52, rangeLength = 2\<rparr>)] \<and>
   list_all namedDeclaration (declarations sampleVariable) \<and>
   conditionallyReportUnusedSymbol (sampleEnv sampleTypes None) {} ''x'' sampleVariable
     ScopeType.Function \<noteq> [] \<and>
   privateSymbol (sampleEnv sampleTypes None) ''x'' ScopeType.Function \<and>
   validateSymbolTables (sampleEnv sampleTypes None) {}
     [sampleModuleScope [(''x'', sampleVariable), (''os'', sampleMixedSymbol)]] =
     [AddUnusedCode (tick @ ''os' is not accessed'')
        (AtRange \<lparr>start = 52, rangeLength = 2\<rparr>),
      AddDiagnostic LevelWarning reportUnusedImport ''Import 'os' is not accessed''
        (AtRange \<lparr>start = 52, rangeLength = 2\<rparr>)]"
proof -
  let ?env = "sampleEnv sampleTypes None"
  have names: "\<not> isPrivateName ?env ''x''" "\<not> isProtectedName ?env ''x''"
    "\<not> isPrivateName ?env ''os''" "\<not> isProtectedName ?env ''os''"
    "\<not> isDunderName ?env ''x''" "\<not> isDunderName ?env ''os''"
    by (simp_all add: sampleEnv_def startsWith_def)
  have h1: "\<not> privateSymbol ?env ''os'' ScopeType.Module"
    using names by (simp add: privateSymbol_def)
  have h1': "\<not> privateSymbol ?env ''x'' ScopeType.Module"
    using names by (simp add: privateSymbol_def)
  have source: "\<not> isStubFile (fileInfo ?env)"
    by (simp add: sampleEnv_def)
  have h2: "list_all namedDeclaration (declarations sampleVariable)"
    by (simp add: sampleVariable_def namedDeclaration_def)
  have h3: "conditionallyReportUnusedSymbol ?env {} ''x'' sampleVariable ScopeType.Function
              \<noteq> []"
    using names
    by (simp add: conditionallyReportUnusedSymbol_def isSymbolPrivate_def
        conditionallyReportUnusedDeclaration_def reportUnused_def sampleVariable_def
        kindNotAccessedMessage_def)
  have pruned: "withoutNamedDeclarations sampleMixedSymbol = sampleImportOs"
    by (simp add: withoutNamedDeclarations_def sampleMixedSymbol_def sampleImportOs_def
        namedDeclaration_def)
  have import: "conditionallyReportUnusedSymbol ?env {} ''os'' sampleImportOs
      ScopeType.Module =
      [AddUnusedCode (tick @ ''os' is not accessed'')
         (AtRange \<lparr>start = 52, rangeLength = 2\<rparr>),
       AddDiagnostic LevelWarning reportUnusedImport ''Import 'os' is not accessed''
         (AtRange \<lparr>start = 52, rangeLength = 2\<rparr>)]"
    using names
    by (simp add: conditionallyReportUnusedSymbol_def conditionallyReportUnusedDeclaration_def
        sampleImportOs_def sampleName_def Let_def)
       (simp add: sampleEnv_def sampleSettings_def sampleTextRangeExtend_def
        notAccessedMessage_def kindNotAccessedMessage_def tick_def)
  have unreported: "conditionallyReportUnusedSymbol ?env {} ''x''
      (withoutNamedDeclarations sampleVariable) ScopeType.Module = []"
    by (simp add: conditionallyReportUnusedSymbol_def withoutNamedDeclarations_def
        sampleVariable_def namedDeclaration_def)
  have swept: "validateSymbolTables ?env {}
      (map (withoutUnreportedDeclarations ?env)
         [sampleModuleScope [(''x'', sampleVariable), (''os'', sampleMixedSymbol)]]) =
      [AddUnusedCode (tick @ ''os' is not accessed'')
         (AtRange \<lparr>start = 52, rangeLength = 2\<rparr>),
       AddDiagnostic LevelWarning reportUnusedImport ''Import 'os' is not accessed''
         (AtRange \<lparr>start = 52, rangeLength = 2\<rparr>)]"
    by (simp add: validateSymbolTables_def withoutUnreportedDeclarations_def
        sampleModuleScope_def pruned h1 h1' source import unreported)
  show ?thesis
    using h1 h2 h3 import swept
      unused_declaration_only_if_private [of ?env "''os''" "ScopeType.Module" "{}"
        sampleMixedSymbol sampleVariable "''x''" "ScopeType.Function"
        "[sampleModuleScope [(''x'', sampleVariable), (''os'', sampleMixedSymbol)]]"]
    by (simp add: pruned)
qed

text \<open>
  Claim C8, as stated: the sweep suppresses every unused-import report for an Alias
  declaration that imports the \<open>__future__\<close> module, and every unused-import report in a
  file whose path ends with \<open>_pb2.py\<close>. It fails for the alias declarations of \<open>import\<close>
  statements: in \<open>gen_pb2.py\<close> the unused \<open>import os\<close> is reported, and so is the unused
  \<open>import __future__ as fut\<close>.
\<close>

theorem unused_import_counterexample:
  "endsWith (filePath (fileInfo samplePb2Env)) ''_pb2.py'' \<and>
   validateSymbolTables samplePb2Env {}
     [sampleModuleScope [(''os'', sampleImportOs), (''fut'', sampleImportFuture)]] =
     [AddUnusedCode (tick @ ''os' is not accessed'')
        (AtRange \<lparr>start = 52, rangeLength = 2\<rparr>),
      AddDiagnostic LevelWarning reportUnusedImport ''Import 'os' is not accessed''
        (AtRange \<lparr>start = 52, rangeLength = 2\<rparr>),
      AddUnusedCode (tick @ ''fut' is not accessed'') (AtNode 55),
      AddDiagnostic LevelWarning reportUnusedImport ''Import 'fut' is not accessed''
        (AtNode 55)]"
  by (simp add: validateSymbolTables_def conditionallyReportUnusedSymbol_def
      conditionallyReportUnusedDeclaration_def reportUnused_def samplePb2Env_def
      sampleEnv_def sampleModuleScope_def sampleImportOs_def sampleImportFuture_def
      sampleName_def sampleSettings_def sampleTextRangeExtend_def notAccessedMessage_def
      kindNotAccessedMessage_def tick_def startsWith_def endsWith_def Let_def)

text \<open>
  Claim C8, amended: for an Alias declaration of a from-import (\<open>from M import x\<close>) whose
  module name \<open>M\<close> has at least one part, the sweep suppresses the unused-import report
  when the first part of \<open>M\<close> is \<open>__future__\<close>, and when the path of the file ends with
  \<open>_pb2.py\<close>.
\<close>

theorem unused_from_import_suppressed:
  assumes "nameParts (importFromModule (importFromAsParent node)) = firstPart # rest"
    and "nameToken_value firstPart = ''__future__'' \<or>
         endsWith (filePath (fileInfo env)) ''_pb2.py''"
  shows "conditionallyReportUnusedDeclaration env
           (AliasDeclaration (ImportFromAsNodeOf node)) isPrivate = []"
  using assms
  by (auto simp: conditionallyReportUnusedDeclaration_def importFromAsNameNode_def
      reportUnused_def Let_def)

text \<open>\<open>from __future__ import annotations\<close> in \<open>app.py\<close> is not reported; \<open>from os import
  path\<close> there is.\<close>

theorem unused_from_import_suppressed_witness:
  "nameParts (importFromModule (importFromAsParent
     (sampleFromImport 60 [''__future__''] ''annotations''))) =
     [sampleName 61 ''__future__''] \<and>
   nameToken_value (sampleName 61 ''__future__'') = ''__future__'' \<and>
   conditionallyReportUnusedDeclaration (sampleEnv sampleTypes None)
     (AliasDeclaration (ImportFromAsNodeOf
        (sampleFromImport 60 [''__future__''] ''annotations''))) False = [] \<and>
   conditionallyReportUnusedDeclaration (sampleEnv sampleTypes None)
     (AliasDeclaration (ImportFromAsNodeOf (sampleFromImport 80 [''os''] ''path''))) False =
     [AddUnusedCode (tick @ ''path' is not accessed'') (AtNode 90),
      AddDiagnostic LevelWarning reportUnusedImport ''Import 'path' is not accessed''
        (AtNode 90)]"
proof -
  let ?node = "sampleFromImport 60 [''__future__''] ''annotations''"
  have h1: "nameParts (importFromModule (importFromAsParent ?node)) =
              sampleName 61 ''__future__'' # []"
    by (simp add: sampleFromImport_def)
  have h2: "nameToken_value (sampleName 61 ''__future__'') = ''__future__'' \<or>
            endsWith (filePath (fileInfo (sampleEnv sampleTypes None))) ''_pb2.py''"
    by (simp add: sampleName_def)
  have other: "conditionallyReportUnusedDeclaration (sampleEnv sampleTypes None)
      (AliasDeclaration (ImportFromAsNodeOf (sampleFromImport 80 [''os''] ''path''))) False =
      [AddUnusedCode (tick @ ''path' is not accessed'') (AtNode 90),
       AddDiagnostic LevelWarning reportUnusedImport ''Import 'path' is not accessed''
         (AtNode 90)]"
    by (simp add: conditionallyReportUnusedDeclaration_def importFromAsNameNode_def
        reportUnused_def sampleFromImport_def sampleName_def sampleEnv_def
        sampleSettings_def notAccessedMessage_def kindNotAccessedMessage_def tick_def
        endsWith_def)
  show ?thesis
    using h1 other unused_from_import_suppressed [OF h1 h2, of False]
    by (simp add: sampleName_def)
qed

text \<open>
  Claim C10. When the analyzed file is a stub file, the symbol-table validation returns
  immediately: whatever the scopes, the accessed symbols and the diagnostic settings are,
  it emits no unused-import, unused-variable, unused-class or unused-function diagnostic
  and marks no unused code.
\<close>

theorem stub_file_no_unused_reports:
  assumes "isStubFile (fileInfo env)"
  shows "validateSymbolTables env accessedSymbolMap scopedNodeScopes = []"
  using assms by (simp add: validateSymbolTables_def)

text \<open>The unused \<open>import os\<close> is reported in \<open>app.py\<close> and not in the stub \<open>app.pyi\<close>.\<close>

theorem stub_file_no_unused_reports_witness:
  "isStubFile (fileInfo sampleStubEnv) \<and>
   validateSymbolTables sampleStubEnv {} [sampleModuleScope [(''os'', sampleImportOs)]] = [] \<and>
   validateSymbolTables (sampleEnv sampleTypes None) {}
     [sampleModuleScope [(''os'', sampleImportOs)]] \<noteq> []"
proof -
  have h: "isStubFile (fileInfo sampleStubEnv)"
    by (simp add: sampleStubEnv_def)
  have source: "validateSymbolTables (sampleEnv sampleTypes None) {}
                  [sampleModuleScope [(''os'', sampleImportOs)]] \<noteq> []"
    by (simp add: validateSymbolTables_def conditionallyReportUnusedSymbol_def
        conditionallyReportUnusedDeclaration_def sampleEnv_def sampleModuleScope_def
        sampleImportOs_def startsWith_def endsWith_def Let_def)
  show ?thesis
    using h source
      stub_file_no_unused_reports [OF h, of "{}"
        "[sampleModuleScope [(''os'', sampleImportOs)]]"]
    by simp
qed

section \<open>Method shape\<close>

text \<open>
  Claim C9, as stated: for a function in a class that has no decorators, is not named
  \<open>__new__\<close> or \<open>__init_subclass__\<close> and is neither a static nor a class method, the error
  "Instance methods should take a 'self' parameter" is emitted exactly when its first
  parameter is of simple category and its name is neither \<open>self\<close> nor prefixed with \<open>_\<close>.
  It fails for a method without parameters: \<open>def m(): ...\<close> has no first parameter, and the
  error is emitted, on the name of the method.
\<close>

theorem validateMethod_no_parameter_counterexample:
  "parameters (sampleMethod [] []) = [] \<and>
   decorators (sampleMethod [] []) = [] \<and>
   validateMethod (sampleEnv sampleTypes None) (sampleMethod [] [])
     (FunctionType False False None) =
     [AddError ''Instance methods should take a 'self' parameter'' (AtNode 66)]"
  by (simp add: validateMethod_def sampleMethod_def sampleName_def firstParameterName_def
      firstParameterOrName_def instanceMethodMessage_def startsWith_def sampleEnv_def)

text \<open>
  Claim C9, amended: for a function in a class that is not named \<open>__new__\<close> or
  \<open>__init_subclass__\<close> and is neither a static nor a class method, the error "Instance
  methods should take a 'self' parameter" is emitted exactly when the function has no
  decorators, it has no parameter or its first parameter is of simple category, and the name
  of the first parameter (the empty name when there is no first parameter or it has no
  name) is neither \<open>self\<close> nor prefixed with \<open>_\<close>, unless the file is a stub file, that name
  is \<open>cls\<close> and the function is named \<open>register\<close>; the error is put on the first parameter,
  or on the function's name when there is none. The presence of any decorator suppresses
  the rule.
\<close>

theorem validateMethod_instance_method:
  assumes "nameToken_value (functionName node) \<noteq> ''__new__''"
    and "nameToken_value (functionName node) \<noteq> ''__init_subclass__''"
    and "\<not> staticMethodFlag functionType"
    and "\<not> classMethodFlag functionType"
  shows "validateMethod env node functionType =
     (let paramName =
            (case parameters node of
               p # _ \<Rightarrow> (case parameterName p of Some n \<Rightarrow> nameToken_value n | None \<Rightarrow> [])
             | [] \<Rightarrow> []);
          firstParamIsSimple =
            (case parameters node of
               p # _ \<Rightarrow> category p = ParameterCategory.Simple
             | [] \<Rightarrow> True)
      in if decorators node = [] \<and> firstParamIsSimple \<and> paramName \<noteq> ''self'' \<and>
            \<not> startsWith paramName ''_'' \<and>
            \<not> (isStubFile (fileInfo env) \<and> paramName = ''cls'' \<and>
               nameToken_value (functionName node) = ''register'')
         then [AddError ''Instance methods should take a 'self' parameter''
                 (case parameters node of
                    p # _ \<Rightarrow> AtNode (nodeId (parameterBase p))
                  | [] \<Rightarrow> AtNode (nodeId (nameBase (functionName node))))]
         else [])"
  using assms
  by (cases "parameters node")
     (auto simp: validateMethod_def firstParameterName_def firstParameterOrName_def
        instanceMethodMessage_def Let_def split: option.splits)

text \<open>\<open>def m(x): ...\<close> in a class gets the error on \<open>x\<close>; decorated, it gets none.\<close>

theorem validateMethod_instance_method_witness:
  "nameToken_value (functionName (sampleMethod [sampleParameter 67 ''x''] [])) \<noteq> ''__new__'' \<and>
   nameToken_value (functionName (sampleMethod [sampleParameter 67 ''x''] [])) \<noteq>
     ''__init_subclass__'' \<and>
   \<not> staticMethodFlag (FunctionType False False None) \<and>
   \<not> classMethodFlag (FunctionType False False None) \<and>
   validateMethod (sampleEnv sampleTypes None) (sampleMethod [sampleParameter 67 ''x''] [])
     (FunctionType False False None) =
     [AddError ''Instance methods should take a 'self' parameter'' (AtNode 67)]"
proof -
  let ?node = "sampleMethod [sampleParameter 67 ''x''] []"
  have h1: "nameToken_value (functionName ?node) \<noteq> ''__new__''"
    and h2: "nameToken_value (functionName ?node) \<noteq> ''__init_subclass__''"
    by (simp_all add: sampleMethod_def sampleName_def)
  have h3: "\<not> staticMethodFlag (FunctionType False False None)"
    and h4: "\<not> classMethodFlag (FunctionType False False None)"
    by simp_all
  show ?thesis
    using h1 h2 h3 h4
      validateMethod_instance_method [OF h1 h2 h3 h4, of "sampleEnv sampleTypes None"]
    by (simp add: sampleMethod_def sampleParameter_def sampleName_def startsWith_def
        sampleEnv_def)
qed

section \<open>Unnecessary type tests\<close>











end
